theory Spec2Isabelle
  imports Main
begin

section \<open>Python values, exceptions and outcomes\<close>

text \<open>
  The identifiers handed to the store are Python objects. \<open>isinstance(x, int)\<close> holds
  for \<open>int\<close> and for \<open>bool\<close> (a subclass of \<open>int\<close>, \<open>True == 1\<close>); it fails for
  every other object, of which strings and \<open>None\<close> stand here.
\<close>

datatype pyval = PyInt int | PyBool bool | PyStr string | PyNone

fun isinstance_int :: "pyval \<Rightarrow> bool" where
  "isinstance_int (PyInt i) = True"
| "isinstance_int (PyBool b) = True"
| "isinstance_int v = False"

fun as_int :: "pyval \<Rightarrow> int" where
  "as_int (PyInt i) = i"
| "as_int (PyBool b) = (if b then 1 else 0)"
| "as_int v = 0"

text \<open>
  The guard \<open>not isinstance(x, int) or x <= 0\<close> of every data operation. The comparison
  is only evaluated for instances of \<open>int\<close>.
\<close>

definition invalid_id :: "pyval \<Rightarrow> bool" where
  "invalid_id v = (\<not> isinstance_int v \<or> as_int v \<le> 0)"

text \<open>
  Exceptions. The messages of the source are Russian text; a message is represented by a
  constructor: \<open>NotInitialized\<close> is the text raised by \<open>_get_connection\<close> without a
  semaphore, \<open>TimeoutMessage\<close> the fixed text of the timeout handlers, and
  \<open>FailureMessage e\<close> the formatted text of the generic handlers, which embeds \<open>str(e)\<close>.
  \<open>AsyncioTimeoutError\<close> is what \<open>asyncio.wait_for\<close> raises, \<open>OverflowError\<close> what
  the driver raises when it is to bind an integer that does not fit the engine's
  \<open>INTEGER\<close>, \<open>DriverError\<close> any other exception of the database driver,
  \<open>TransportError\<close> any exception that ends the message loop. \<open>ValueError\<close> carries
  what was refused and the value.
\<close>

datatype subject = UserId | TopicId | SemaphoreValue

datatype exn =
    ValueError subject pyval
  | AsyncioTimeoutError
  | OverflowError
  | DriverError
  | TransportError
  | DatabaseError message
and message =
    NotInitialized
  | TimeoutMessage
  | FailureMessage exn

datatype exn_class =
    ValueErrorClass
  | TimeoutErrorClass
  | OverflowErrorClass
  | DriverErrorClass
  | TransportErrorClass
  | DatabaseErrorClass

fun class_of :: "exn \<Rightarrow> exn_class" where
  "class_of (ValueError f v) = ValueErrorClass"
| "class_of AsyncioTimeoutError = TimeoutErrorClass"
| "class_of OverflowError = OverflowErrorClass"
| "class_of DriverError = DriverErrorClass"
| "class_of TransportError = TransportErrorClass"
| "class_of (DatabaseError m) = DatabaseErrorClass"

text \<open>
  A coroutine returns a value, raises, or never resumes (\<open>Hang\<close>: it awaits a semaphore
  that nobody releases, or a pair of tasks none of which completes).
\<close>

datatype 'a outcome = Return 'a | Raise exn | Hang

section \<open>The mapping store\<close>

datatype stmt =
    PragmaWal
  | PragmaForeignKeys
  | CreateTable
  | CreateIndex
  | CreateTrigger
  | SelectTopic int
  | SelectUser int
  | InsertOrReplace int int
  | DeleteUser int

datatype event = Acquire | Release | Open | Close | Execute stmt | Commit

datatype opname = GetUserTopic | CreateUserTopic | GetUserByTopic | DeleteUserTopic

datatype log_entry =
    LogInitialized
  | LogClosed
  | LogCreated int int
  | LogDeleted int
  | LogTimeout opname int
  | LogFailure opname int exn

type_synonym row = "int \<times> int"

type_synonym conn = nat

text \<open>
  \<open>DatabaseManager\<close> together with what it acts on. \<open>semaphore\<close> is \<open>None\<close> until
  \<open>initialize\<close> creates it and then holds the counter of the \<open>asyncio.Semaphore\<close>;
  \<open>lock_held\<close> is the state of \<open>_lock\<close>. \<open>table\<close> is the \<open>users\<close> table of the database
  file (\<open>None\<close>: the table does not exist), a row being \<open>(user_id, topic_id)\<close>;
  \<open>open_conns\<close> counts the physical connections that are open; \<open>trace\<close> records every
  effect on the semaphore, the connection and the database in order, \<open>journal\<close> the calls
  of the logger.
\<close>

record store =
  max_connections :: int
  semaphore :: "nat option"
  initialized :: bool
  pool :: "conn list"
  lock_held :: bool
  table :: "row list option"
  open_conns :: nat
  trace :: "event list"
  journal :: "log_entry list"

text \<open>What \<open>DatabaseManager(db_path, max_connections)\<close> constructs, over a given file.\<close>

definition new_manager :: "int \<Rightarrow> row list option \<Rightarrow> store" where
  "new_manager n t =
     \<lparr>max_connections = n, semaphore = None, initialized = False, pool = [],
      lock_held = False, table = t, open_conns = 0, trace = [], journal = []\<rparr>"

subsection \<open>The statements, as the engine executes them\<close>

text \<open>
  \<open>user_id\<close> is the primary key and \<open>topic_id\<close> is \<open>UNIQUE\<close>. \<open>INSERT OR REPLACE\<close>
  deletes every row that conflicts with the new one on either constraint and then
  inserts it; \<open>DELETE\<close> reports the number of rows removed; a \<open>SELECT\<close> with
  \<open>fetchone\<close> yields the first matching row.
\<close>

definition select_topic :: "int \<Rightarrow> row list \<Rightarrow> int option" where
  "select_topic u rows = map_option snd (find (\<lambda>r. fst r = u) rows)"

definition select_user :: "int \<Rightarrow> row list \<Rightarrow> int option" where
  "select_user t rows = map_option fst (find (\<lambda>r. snd r = t) rows)"

definition insert_or_replace :: "int \<Rightarrow> int \<Rightarrow> row list \<Rightarrow> row list" where
  "insert_or_replace u t rows = filter (\<lambda>r. fst r \<noteq> u \<and> snd r \<noteq> t) rows @ [(u, t)]"

definition delete_user :: "int \<Rightarrow> row list \<Rightarrow> row list" where
  "delete_user u rows = filter (\<lambda>r. fst r \<noteq> u) rows"

definition rowcount :: "int \<Rightarrow> row list \<Rightarrow> nat" where
  "rowcount u rows = length (filter (\<lambda>r. fst r = u) rows)"

text \<open>
  The engine's \<open>INTEGER\<close> is a signed 64-bit number. Python's integers are unbounded, and
  the driver refuses to bind one outside that range.
\<close>

definition sqlite_int :: "int \<Rightarrow> bool" where
  "sqlite_int i = (- (2 ^ 63) \<le> i \<and> i < 2 ^ 63)"

text \<open>
  What the driver does during one operation: everything works; the connection is not
  open within the timeout; opening it fails; a statement fails (a locked or damaged
  file); or closing the connection fails.
\<close>

datatype driver = Works | ConnectTimesOut | ConnectFails | StatementFails | CloseFails

subsection \<open>\<open>_get_connection\<close>\<close>

definition release :: "store \<Rightarrow> store" where
  "release s = s\<lparr>semaphore := map_option Suc (semaphore s), trace := trace s @ [Release]\<rparr>"

definition close_conn :: "store \<Rightarrow> store" where
  "close_conn s = s\<lparr>open_conns := open_conns s - 1, trace := trace s @ [Close]\<rparr>"

text \<open>
  When \<open>wait_for\<close> gives up, the driver goes on opening the connection it was asked
  for; \<open>conn\<close> is still \<open>None\<close> in the task, so nothing will close it.
\<close>

definition abandon :: "store \<Rightarrow> store" where
  "abandon s = s\<lparr>open_conns := open_conns s + 1, trace := trace s @ [Open]\<rparr>"

text \<open>
  The context manager, with the block it guards as an argument. Without a semaphore it
  raises at once. \<open>acquire\<close> on a counter of zero suspends the task until a release,
  which a task running alone never gets. The \<open>finally\<close> block first closes the
  connection if \<open>conn\<close> holds one, then releases the slot: after a timeout there is
  nothing in \<open>conn\<close> to close, and when \<open>conn.close()\<close> raises, its exception leaves the
  block before \<open>release\<close> is reached and takes the place of the outcome of the guarded
  block.
\<close>

definition get_connection ::
  "driver \<Rightarrow> (store \<Rightarrow> 'a outcome \<times> store) \<Rightarrow> store \<Rightarrow> 'a outcome \<times> store" where
  "get_connection d body s =
     (case semaphore s of
        None \<Rightarrow> (Raise (DatabaseError NotInitialized), s)
      | Some n \<Rightarrow>
          if n = 0 then (Hang, s)
          else
            let s1 = s\<lparr>semaphore := Some (n - 1), trace := trace s @ [Acquire]\<rparr> in
            (case d of
               ConnectTimesOut \<Rightarrow> (Raise AsyncioTimeoutError, abandon (release s1))
             | ConnectFails \<Rightarrow> (Raise DriverError, release s1)
             | _ \<Rightarrow>
                 let s2 = s1\<lparr>open_conns := open_conns s1 + 1, trace := trace s1 @ [Open]\<rparr> in
                 (case body s2 of
                    (Hang, s3) \<Rightarrow> (Hang, s3)
                  | (r, s3) \<Rightarrow>
                      if d = CloseFails then (Raise DriverError, s3)
                      else (r, release (close_conn s3)))))"

subsection \<open>The data operations\<close>

text \<open>
  The two handlers that close every data operation: \<open>except asyncio.TimeoutError\<close>
  first, \<open>except Exception\<close> second. Both log and raise \<open>DatabaseError\<close>.
\<close>

text \<open>
  In the guarded blocks below a statement is prepared, which fails without the table or
  when the driver fails, then its parameters are bound, which fails for an integer
  outside the engine's range, then it runs.
\<close>

fun handlers :: "opname \<Rightarrow> int \<Rightarrow> 'a outcome \<times> store \<Rightarrow> 'a outcome \<times> store" where
  "handlers f k (Raise AsyncioTimeoutError, s) =
     (Raise (DatabaseError TimeoutMessage), s\<lparr>journal := journal s @ [LogTimeout f k]\<rparr>)"
| "handlers f k (Raise e, s) =
     (Raise (DatabaseError (FailureMessage e)), s\<lparr>journal := journal s @ [LogFailure f k e]\<rparr>)"
| "handlers f k (r, s) = (r, s)"

definition select_topic_body :: "driver \<Rightarrow> int \<Rightarrow> store \<Rightarrow> int option outcome \<times> store" where
  "select_topic_body d u s =
     (case table s of
        None \<Rightarrow> (Raise DriverError, s)
      | Some rows \<Rightarrow>
          if d = StatementFails then (Raise DriverError, s)
          else if \<not> sqlite_int u then (Raise OverflowError, s)
          else (Return (select_topic u rows), s\<lparr>trace := trace s @ [Execute (SelectTopic u)]\<rparr>))"

definition get_user_topic :: "driver \<Rightarrow> pyval \<Rightarrow> store \<Rightarrow> int option outcome \<times> store" where
  "get_user_topic d user_id s =
     (if invalid_id user_id then (Raise (ValueError UserId user_id), s)
      else handlers GetUserTopic (as_int user_id)
             (get_connection d (select_topic_body d (as_int user_id)) s))"

definition insert_body :: "driver \<Rightarrow> int \<Rightarrow> int \<Rightarrow> store \<Rightarrow> unit outcome \<times> store" where
  "insert_body d u t s =
     (case table s of
        None \<Rightarrow> (Raise DriverError, s)
      | Some rows \<Rightarrow>
          if d = StatementFails then (Raise DriverError, s)
          else if \<not> sqlite_int u \<or> \<not> sqlite_int t then (Raise OverflowError, s)
          else (Return (),
                s\<lparr>table := Some (insert_or_replace u t rows),
                  trace := trace s @ [Execute (InsertOrReplace u t), Commit],
                  journal := journal s @ [LogCreated u t]\<rparr>))"

definition create_user_topic :: "driver \<Rightarrow> pyval \<Rightarrow> pyval \<Rightarrow> store \<Rightarrow> unit outcome \<times> store" where
  "create_user_topic d user_id topic_id s =
     (if invalid_id user_id then (Raise (ValueError UserId user_id), s)
      else if invalid_id topic_id then (Raise (ValueError TopicId topic_id), s)
      else handlers CreateUserTopic (as_int user_id)
             (get_connection d (insert_body d (as_int user_id) (as_int topic_id)) s))"

definition select_user_body :: "driver \<Rightarrow> int \<Rightarrow> store \<Rightarrow> int option outcome \<times> store" where
  "select_user_body d t s =
     (case table s of
        None \<Rightarrow> (Raise DriverError, s)
      | Some rows \<Rightarrow>
          if d = StatementFails then (Raise DriverError, s)
          else if \<not> sqlite_int t then (Raise OverflowError, s)
          else (Return (select_user t rows), s\<lparr>trace := trace s @ [Execute (SelectUser t)]\<rparr>))"

definition get_user_by_topic :: "driver \<Rightarrow> pyval \<Rightarrow> store \<Rightarrow> int option outcome \<times> store" where
  "get_user_by_topic d topic_id s =
     (if invalid_id topic_id then (Raise (ValueError TopicId topic_id), s)
      else handlers GetUserByTopic (as_int topic_id)
             (get_connection d (select_user_body d (as_int topic_id)) s))"

definition delete_body :: "driver \<Rightarrow> int \<Rightarrow> store \<Rightarrow> bool outcome \<times> store" where
  "delete_body d u s =
     (case table s of
        None \<Rightarrow> (Raise DriverError, s)
      | Some rows \<Rightarrow>
          if d = StatementFails then (Raise DriverError, s)
          else if \<not> sqlite_int u then (Raise OverflowError, s)
          else
            let deleted = (rowcount u rows > 0) in
            (Return deleted,
             s\<lparr>table := Some (delete_user u rows),
               trace := trace s @ [Execute (DeleteUser u), Commit],
               journal := journal s @ (if deleted then [LogDeleted u] else [])\<rparr>))"

definition delete_user_topic :: "driver \<Rightarrow> pyval \<Rightarrow> store \<Rightarrow> bool outcome \<times> store" where
  "delete_user_topic d user_id s =
     (if invalid_id user_id then (Raise (ValueError UserId user_id), s)
      else handlers DeleteUserTopic (as_int user_id)
             (get_connection d (delete_body d (as_int user_id)) s))"

subsection \<open>\<open>initialize\<close> and \<open>close\<close>\<close>

text \<open>
  The schema block of \<open>initialize\<close>: two pragmas, \<open>CREATE TABLE IF NOT EXISTS\<close>, the
  index, the trigger, the commit.
\<close>

definition schema_body :: "driver \<Rightarrow> store \<Rightarrow> unit outcome \<times> store" where
  "schema_body d s =
     (if d = StatementFails then (Raise DriverError, s)
      else (Return (),
            s\<lparr>table := Some (case table s of None \<Rightarrow> [] | Some rows \<Rightarrow> rows),
              trace := trace s @ [Execute PragmaWal, Execute PragmaForeignKeys,
                                  Execute CreateTable, Execute CreateIndex,
                                  Execute CreateTrigger, Commit]\<rparr>))"

text \<open>
  \<open>initialize\<close> runs under the lock, which is given back when the block is left by a
  return or an exception. \<open>asyncio.Semaphore\<close> refuses a negative initial value with a
  \<open>ValueError\<close>. The schema block is not guarded by any handler.
\<close>

definition initialize :: "driver \<Rightarrow> store \<Rightarrow> unit outcome \<times> store" where
  "initialize d s =
     (if lock_held s then (Hang, s)
      else if initialized s then (Return (), s)
      else if max_connections s < 0
        then (Raise (ValueError SemaphoreValue (PyInt (max_connections s))), s)
      else
        (case get_connection d (schema_body d)
                (s\<lparr>semaphore := Some (nat (max_connections s)), lock_held := True\<rparr>) of
           (Return u, s') \<Rightarrow>
             (Return (), s'\<lparr>initialized := True, lock_held := False,
                           journal := journal s' @ [LogInitialized]\<rparr>)
         | (Raise e, s') \<Rightarrow> (Raise e, s'\<lparr>lock_held := False\<rparr>)
         | (Hang, s') \<Rightarrow> (Hang, s')))"

definition close :: "store \<Rightarrow> unit outcome \<times> store" where
  "close s =
     (if lock_held s then (Hang, s)
      else (Return (),
            s\<lparr>pool := [],
              initialized := False,
              open_conns := open_conns s - length (pool s),
              trace := trace s @ map (\<lambda>c. Close) (pool s),
              journal := journal s @ [LogClosed]\<rparr>))"

subsection \<open>States and runs of the store\<close>

text \<open>
  A store is ready when \<open>initialize\<close> has completed: the flag is set, the table exists
  and the semaphore has a free slot. The table is a bijection when no \<open>user_id\<close> and no
  \<open>topic_id\<close> occurs in two rows.
\<close>

definition ready :: "store \<Rightarrow> bool" where
  "ready s = (initialized s \<and> table s \<noteq> None \<and>
              (case semaphore s of None \<Rightarrow> False | Some n \<Rightarrow> 0 < n))"

definition bijective :: "row list \<Rightarrow> bool" where
  "bijective rows = (distinct (map fst rows) \<and> distinct (map snd rows))"

definition table_bijective :: "store \<Rightarrow> bool" where
  "table_bijective s = (case table s of None \<Rightarrow> False | Some rows \<Rightarrow> bijective rows)"

text \<open>The store of \<open>main\<close>: five connections, a database file without the table, initialised.\<close>

definition fresh_store :: store where
  "fresh_store = snd (initialize Works (new_manager 5 None))"

text \<open>
  A caller issuing creations and deletions one after the other, each under its own
  behaviour of the driver. An exception reaches the caller, who goes on with the next
  call; a call that never resumes ends the run.
\<close>

datatype call = Create pyval pyval | Delete pyval

fun run :: "(driver \<times> call) list \<Rightarrow> store \<Rightarrow> store" where
  "run [] s = s"
| "run ((d, Create u t) # cs) s =
     (case create_user_topic d u t s of (Hang, s') \<Rightarrow> s' | (r, s') \<Rightarrow> run cs s')"
| "run ((d, Delete u) # cs) s =
     (case delete_user_topic d u s of (Hang, s') \<Rightarrow> s' | (r, s') \<Rightarrow> run cs s')"

section \<open>The lifecycle: \<open>run_bot\<close> and \<open>main\<close>\<close>

text \<open>
  What \<open>asyncio.wait(..., return_when=FIRST_COMPLETED)\<close> finds when it returns: the
  polling task still runs, has returned, or has ended with an exception; the shutdown
  task has completed exactly when the event is set.
\<close>

datatype task_state = Running | Completed | Failed exn

record race =
  polling :: task_state
  shutdown :: bool

datatype task = PollingTask | ShutdownTask

datatype step =
    LogStarting
  | LogBotReady
  | Cancelled task
  | SessionClosed
  | LogBotFinished
  | LogCritical exn
  | StoreClosed
  | LogStopped

record process =
  db :: store
  session_open :: bool
  timeline :: "step list"

definition new_process :: "int \<Rightarrow> row list option \<Rightarrow> process" where
  "new_process n t = \<lparr>db = new_manager n t, session_open = True, timeline = []\<rparr>"

text \<open>
  \<open>run_bot\<close>. With neither task complete the wait never returns. Otherwise the tasks
  still pending are cancelled and awaited, the \<open>CancelledError\<close> being swallowed; the
  tasks in \<open>done\<close> are not looked at. Then the session is closed.
\<close>

definition pending :: "race \<Rightarrow> task list" where
  "pending r = (if polling r = Running then [PollingTask] else []) @
               (if shutdown r then [] else [ShutdownTask])"

definition run_bot :: "race \<Rightarrow> process \<Rightarrow> unit outcome \<times> process" where
  "run_bot r p =
     (let p1 = p\<lparr>timeline := timeline p @ [LogBotReady]\<rparr> in
      if polling r = Running \<and> \<not> shutdown r then (Hang, p1)
      else (Return (),
            p1\<lparr>session_open := False,
               timeline := timeline p1 @ map Cancelled (pending r) @
                           [SessionClosed, LogBotFinished]\<rparr>))"

text \<open>
  \<open>main\<close>: the store is initialised outside the \<open>try\<close>; \<open>except Exception\<close> logs and
  raises again; \<open>finally\<close> closes the store.
\<close>

definition close_store :: "unit outcome \<Rightarrow> process \<Rightarrow> unit outcome \<times> process" where
  "close_store r p =
     (case close (db p) of
        (Return u, s) \<Rightarrow> (r, p\<lparr>db := s, timeline := timeline p @ [StoreClosed, LogStopped]\<rparr>)
      | (Raise e, s) \<Rightarrow> (Raise e, p\<lparr>db := s\<rparr>)
      | (Hang, s) \<Rightarrow> (Hang, p\<lparr>db := s\<rparr>))"

definition main :: "driver \<Rightarrow> race \<Rightarrow> process \<Rightarrow> unit outcome \<times> process" where
  "main d r p =
     (case initialize d (db p) of
        (Raise e, s) \<Rightarrow> (Raise e, p\<lparr>db := s\<rparr>)
      | (Hang, s) \<Rightarrow> (Hang, p\<lparr>db := s\<rparr>)
      | (Return u, s) \<Rightarrow>
          (case run_bot r (p\<lparr>db := s, timeline := timeline p @ [LogStarting]\<rparr>) of
             (Hang, p') \<Rightarrow> (Hang, p')
           | (Raise e, p') \<Rightarrow>
               close_store (Raise e) (p'\<lparr>timeline := timeline p' @ [LogCritical e]\<rparr>)
           | (Return v, p') \<Rightarrow> close_store (Return ()) p'))"

text \<open>
  The exit status of \<open>asyncio.run(main())\<close>: zero after a return, one after an
  exception that nothing caught; a process that never finishes has none.
\<close>

fun exit_status :: "unit outcome \<Rightarrow> nat option" where
  "exit_status (Return u) = Some 0"
| "exit_status (Raise e) = Some 1"
| "exit_status Hang = None"

section \<open>Facts about the statements and the operations\<close>

lemma readyE:
  assumes "ready s"
  obtains n rows where "semaphore s = Some n" "0 < n" "table s = Some rows" "initialized s"
  using assms by (auto simp: ready_def split: option.splits)

lemma fresh_store_eq:
  "fresh_store =
     \<lparr>max_connections = 5, semaphore = Some 5, initialized = True, pool = [],
      lock_held = False, table = Some [], open_conns = 0,
      trace = [Acquire, Open, Execute PragmaWal, Execute PragmaForeignKeys,
               Execute CreateTable, Execute CreateIndex, Execute CreateTrigger,
               Commit, Close, Release],
      journal = [LogInitialized]\<rparr>"
  by (simp add: fresh_store_def initialize_def new_manager_def get_connection_def
      schema_body_def release_def close_conn_def Let_def)

lemma fresh_store_ready: "ready fresh_store"
  by (simp add: fresh_store_eq ready_def)

lemma fresh_store_bijective: "table_bijective fresh_store"
  by (simp add: fresh_store_eq table_bijective_def bijective_def)

lemma find_app:
  "find P (xs @ ys) = (case find P xs of None \<Rightarrow> find P ys | Some x \<Rightarrow> Some x)"
  by (induction xs) auto

lemma select_topic_insert: "select_topic u (insert_or_replace u t rows) = Some t"
proof -
  have "find (\<lambda>r. fst r = u) (filter (\<lambda>r. fst r \<noteq> u \<and> snd r \<noteq> t) rows) = None"
    by (simp add: find_None_iff)
  then show ?thesis
    by (simp add: select_topic_def insert_or_replace_def find_app)
qed

lemma select_user_insert: "select_user t (insert_or_replace u t rows) = Some u"
proof -
  have "find (\<lambda>r. snd r = t) (filter (\<lambda>r. fst r \<noteq> u \<and> snd r \<noteq> t) rows) = None"
    by (simp add: find_None_iff)
  then show ?thesis
    by (simp add: select_user_def insert_or_replace_def find_app)
qed

lemma select_topic_None: "select_topic u rows = None \<longleftrightarrow> u \<notin> fst ` set rows"
  by (force simp: select_topic_def find_None_iff)

lemma select_user_None: "select_user t rows = None \<longleftrightarrow> t \<notin> snd ` set rows"
  by (force simp: select_user_def find_None_iff)

lemma rowcount_pos: "0 < rowcount u rows \<longleftrightarrow> u \<in> fst ` set rows"
  by (force simp: rowcount_def filter_empty_conv)

lemma fst_delete_user: "fst ` set (delete_user u rows) = fst ` set rows - {u}"
  by (force simp: delete_user_def)

lemma rowcount_insert: "rowcount u (insert_or_replace u t rows) = 1"
proof -
  have "filter (\<lambda>r. fst r = u) (filter (\<lambda>r. fst r \<noteq> u \<and> snd r \<noteq> t) rows) = []"
    by (auto simp: filter_empty_conv)
  then show ?thesis
    by (simp add: rowcount_def insert_or_replace_def)
qed

lemma bijective_insert: "bijective rows \<Longrightarrow> bijective (insert_or_replace u t rows)"
  by (force simp: bijective_def insert_or_replace_def distinct_map_filter)

lemma bijective_delete: "bijective rows \<Longrightarrow> bijective (delete_user u rows)"
  by (simp add: bijective_def delete_user_def distinct_map_filter)

lemma sqlite_int_pos: "0 < i \<Longrightarrow> i < 2 ^ 63 \<Longrightarrow> sqlite_int i"
  by (simp add: sqlite_int_def)

lemma get_user_topic_works:
  "semaphore s = Some n \<Longrightarrow> 0 < n \<Longrightarrow> table s = Some rows \<Longrightarrow> 0 < u \<Longrightarrow> sqlite_int u \<Longrightarrow>
   get_user_topic Works (PyInt u) s =
     (Return (select_topic u rows),
      s\<lparr>trace := trace s @ [Acquire, Open, Execute (SelectTopic u), Close, Release]\<rparr>)"
  by (simp add: get_user_topic_def invalid_id_def get_connection_def Let_def
      select_topic_body_def release_def close_conn_def)

lemma get_user_by_topic_works:
  "semaphore s = Some n \<Longrightarrow> 0 < n \<Longrightarrow> table s = Some rows \<Longrightarrow> 0 < t \<Longrightarrow> sqlite_int t \<Longrightarrow>
   get_user_by_topic Works (PyInt t) s =
     (Return (select_user t rows),
      s\<lparr>trace := trace s @ [Acquire, Open, Execute (SelectUser t), Close, Release]\<rparr>)"
  by (simp add: get_user_by_topic_def invalid_id_def get_connection_def Let_def
      select_user_body_def release_def close_conn_def)

lemma create_user_topic_works:
  "semaphore s = Some n \<Longrightarrow> 0 < n \<Longrightarrow> table s = Some rows \<Longrightarrow>
   0 < u \<Longrightarrow> sqlite_int u \<Longrightarrow> 0 < t \<Longrightarrow> sqlite_int t \<Longrightarrow>
   create_user_topic Works (PyInt u) (PyInt t) s =
     (Return (),
      s\<lparr>table := Some (insert_or_replace u t rows),
        trace := trace s @ [Acquire, Open, Execute (InsertOrReplace u t), Commit, Close, Release],
        journal := journal s @ [LogCreated u t]\<rparr>)"
  by (simp add: create_user_topic_def invalid_id_def get_connection_def Let_def
      insert_body_def release_def close_conn_def)

lemma delete_user_topic_works:
  "semaphore s = Some n \<Longrightarrow> 0 < n \<Longrightarrow> table s = Some rows \<Longrightarrow> 0 < u \<Longrightarrow> sqlite_int u \<Longrightarrow>
   delete_user_topic Works (PyInt u) s =
     (Return (0 < rowcount u rows),
      s\<lparr>table := Some (delete_user u rows),
        trace := trace s @ [Acquire, Open, Execute (DeleteUser u), Commit, Close, Release],
        journal := journal s @ (if 0 < rowcount u rows then [LogDeleted u] else [])\<rparr>)"
  by (simp add: delete_user_topic_def invalid_id_def get_connection_def Let_def
      delete_body_def release_def close_conn_def)

lemmas store_defs =
  get_user_topic_def create_user_topic_def get_user_by_topic_def delete_user_topic_def
  get_connection_def select_topic_body_def insert_body_def select_user_body_def
  delete_body_def release_def close_conn_def abandon_def invalid_id_def Let_def

lemmas engine_defs =
  select_topic_def select_user_def insert_or_replace_def delete_user_def rowcount_def
  sqlite_int_def

lemma create_user_topic_after:
  assumes "ready s" and "table s = Some rows"
    and "0 < u" and "u < 2 ^ 63" and "0 < t" and "t < 2 ^ 63"
  shows "fst (create_user_topic Works (PyInt u) (PyInt t) s) = Return ()"
    and "ready (snd (create_user_topic Works (PyInt u) (PyInt t) s))"
    and "table (snd (create_user_topic Works (PyInt u) (PyInt t) s)) =
           Some (insert_or_replace u t rows)"
proof -
  from assms(1) obtain n where s: "semaphore s = Some n" "0 < n" "initialized s"
    by (auto elim: readyE)
  note w = create_user_topic_works [OF s(1,2) assms(2,3) sqlite_int_pos [OF assms(3,4)]
      assms(5) sqlite_int_pos [OF assms(5,6)]]
  show "fst (create_user_topic Works (PyInt u) (PyInt t) s) = Return ()"
    by (simp add: w)
  show "ready (snd (create_user_topic Works (PyInt u) (PyInt t) s))"
    using s by (simp add: w ready_def)
  show "table (snd (create_user_topic Works (PyInt u) (PyInt t) s)) =
           Some (insert_or_replace u t rows)"
    by (simp add: w)
qed

lemma get_user_topic_after:
  assumes "ready s" and "table s = Some rows" and "0 < u" and "u < 2 ^ 63"
  shows "get_user_topic Works (PyInt u) s =
     (Return (select_topic u rows),
      s\<lparr>trace := trace s @ [Acquire, Open, Execute (SelectTopic u), Close, Release]\<rparr>)"
proof -
  from assms(1) obtain n where s: "semaphore s = Some n" "0 < n"
    by (auto elim: readyE)
  show ?thesis
    by (rule get_user_topic_works [OF s assms(2,3) sqlite_int_pos [OF assms(3,4)]])
qed

lemma get_user_by_topic_after:
  assumes "ready s" and "table s = Some rows" and "0 < t" and "t < 2 ^ 63"
  shows "get_user_by_topic Works (PyInt t) s =
     (Return (select_user t rows),
      s\<lparr>trace := trace s @ [Acquire, Open, Execute (SelectUser t), Close, Release]\<rparr>)"
proof -
  from assms(1) obtain n where s: "semaphore s = Some n" "0 < n"
    by (auto elim: readyE)
  show ?thesis
    by (rule get_user_by_topic_works [OF s assms(2,3) sqlite_int_pos [OF assms(3,4)]])
qed

lemma select_user_replaced:
  "t1 \<noteq> t2 \<Longrightarrow> select_user t1 (insert_or_replace u t2 (insert_or_replace u t1 rows)) = None"
  by (auto simp: select_user_None insert_or_replace_def)

lemma create_user_topic_bijective:
  assumes "table_bijective s"
  shows "table_bijective (snd (create_user_topic d u t s))"
proof -
  from assms obtain rows where s: "table s = Some rows" "bijective rows"
    by (auto simp: table_bijective_def split: option.splits)
  show ?thesis
    using s
    by (cases d; cases "semaphore s")
      (simp_all add: store_defs table_bijective_def bijective_insert)
qed

lemma delete_user_topic_bijective:
  assumes "table_bijective s"
  shows "table_bijective (snd (delete_user_topic d u s))"
proof -
  from assms obtain rows where s: "table s = Some rows" "bijective rows"
    by (auto simp: table_bijective_def split: option.splits)
  show ?thesis
    using s
    by (cases d; cases "semaphore s")
      (simp_all add: store_defs table_bijective_def bijective_delete)
qed

lemma create_user_topic_ready:
  assumes "ready s" and "d \<noteq> CloseFails"
  shows "fst (create_user_topic d u t s) \<noteq> Hang \<and> ready (snd (create_user_topic d u t s))"
proof -
  from assms(1) obtain n rows where
    s: "semaphore s = Some n" "0 < n" "table s = Some rows" "initialized s"
    by (auto elim: readyE)
  show ?thesis
    using s assms(2) by (cases d) (simp_all add: store_defs ready_def)
qed

lemma delete_user_topic_ready:
  assumes "ready s" and "d \<noteq> CloseFails"
  shows "fst (delete_user_topic d u s) \<noteq> Hang \<and> ready (snd (delete_user_topic d u s))"
proof -
  from assms(1) obtain n rows where
    s: "semaphore s = Some n" "0 < n" "table s = Some rows" "initialized s"
    by (auto elim: readyE)
  show ?thesis
    using s assms(2) by (cases d) (simp_all add: store_defs ready_def)
qed

lemma run_bijective: "table_bijective s \<Longrightarrow> table_bijective (run cs s)"
proof (induction cs s rule: run.induct)
  case (1 s)
  then show ?case by simp
next
  case (2 d u t cs s)
  from create_user_topic_bijective [OF "2.prems", of d u t]
  show ?case
    using "2.IH" "2.prems"
    by (cases "create_user_topic d u t s") (auto split: outcome.splits)
next
  case (3 d u cs s)
  from delete_user_topic_bijective [OF "3.prems", of d u]
  show ?case
    using "3.IH" "3.prems"
    by (cases "delete_user_topic d u s") (auto split: outcome.splits)
qed

lemma run_ready:
  "ready s \<Longrightarrow> list_all (\<lambda>c. fst c \<noteq> CloseFails) cs \<Longrightarrow> ready (run cs s)"
proof (induction cs s rule: run.induct)
  case (1 s)
  then show ?case by simp
next
  case (2 d u t cs s)
  then have d: "d \<noteq> CloseFails" by simp
  from create_user_topic_ready [OF "2.prems"(1) d, of u t]
  show ?case
    using "2.IH" "2.prems"
    by (cases "create_user_topic d u t s") (auto split: outcome.splits)
next
  case (3 d u cs s)
  then have d: "d \<noteq> CloseFails" by simp
  from delete_user_topic_ready [OF "3.prems"(1) d, of u]
  show ?case
    using "3.IH" "3.prems"
    by (cases "delete_user_topic d u s") (auto split: outcome.splits)
qed

lemma delete_user_topic_after:
  assumes "ready s" and "table s = Some rows" and "0 < u" and "u < 2 ^ 63"
  shows "ready (snd (delete_user_topic Works (PyInt u) s))"
    and "table (snd (delete_user_topic Works (PyInt u) s)) = Some (delete_user u rows)"
    and "fst (delete_user_topic Works (PyInt u) s) = Return (u \<in> fst ` set rows)"
proof -
  from assms(1) obtain n where s: "semaphore s = Some n" "0 < n" "initialized s"
    by (auto elim: readyE)
  note w = delete_user_topic_works [OF s(1,2) assms(2,3) sqlite_int_pos [OF assms(3,4)]]
  show "ready (snd (delete_user_topic Works (PyInt u) s))"
    using s by (simp add: w ready_def)
  show "table (snd (delete_user_topic Works (PyInt u) s)) = Some (delete_user u rows)"
    by (simp add: w)
  show "fst (delete_user_topic Works (PyInt u) s) = Return (u \<in> fst ` set rows)"
    by (simp add: w rowcount_pos)
qed

lemma delete_user_twice: "delete_user u (delete_user u rows) = delete_user u rows"
  by (simp add: delete_user_def)

lemma delete_user_topic_repeated:
  assumes "ready s" and "table s = Some rows" and "0 < u" and "u < 2 ^ 63"
  shows "ready (((\<lambda>s. snd (delete_user_topic Works (PyInt u) s)) ^^ Suc k) s) \<and>
         table (((\<lambda>s. snd (delete_user_topic Works (PyInt u) s)) ^^ Suc k) s) =
           Some (delete_user u rows)"
proof (induction k)
  case 0
  then show ?case
    using delete_user_topic_after(1,2) [OF assms] by simp
next
  case (Suc k)
  then show ?case
    using delete_user_topic_after(1,2) [OF _ _ assms(3,4), of _ "delete_user u rows"]
    by (simp add: delete_user_twice)
qed

section \<open>Properties of the mapping store\<close>

text \<open>
  C1, as amended. For strictly positive integers \<open>u\<close> and \<open>t\<close> that fit the engine's
  signed 64-bit \<open>INTEGER\<close>: \<open>create_user_topic(u, t)\<close> on a ready store returns, and
  afterwards \<open>get_user_topic(u)\<close> returns \<open>t\<close> and \<open>get_user_by_topic(t)\<close> returns \<open>u\<close>,
  the second lookup also when it follows the first.
\<close>

theorem create_then_lookup:
  assumes "ready s" and "0 < u" and "u < 2 ^ 63" and "0 < t" and "t < 2 ^ 63"
  shows "fst (create_user_topic Works (PyInt u) (PyInt t) s) = Return () \<and>
         fst (get_user_topic Works (PyInt u)
                (snd (create_user_topic Works (PyInt u) (PyInt t) s))) = Return (Some t) \<and>
         fst (get_user_by_topic Works (PyInt t)
                (snd (create_user_topic Works (PyInt u) (PyInt t) s))) = Return (Some u) \<and>
         fst (get_user_by_topic Works (PyInt t)
                (snd (get_user_topic Works (PyInt u)
                   (snd (create_user_topic Works (PyInt u) (PyInt t) s))))) = Return (Some u)"
proof -
  let ?s1 = "snd (create_user_topic Works (PyInt u) (PyInt t) s)"
  let ?s2 = "snd (get_user_topic Works (PyInt u) ?s1)"
  from assms(1) obtain rows where rows: "table s = Some rows"
    by (auto elim: readyE)
  note c = create_user_topic_after [OF assms(1) rows assms(2-5)]
  note g = get_user_topic_after [OF c(2,3) assms(2,3)]
  have r2: "ready ?s2" and t2: "table ?s2 = Some (insert_or_replace u t rows)"
    using c(2,3) by (simp_all add: g ready_def)
  have topic: "fst (get_user_topic Works (PyInt u) ?s1) = Return (Some t)"
    by (simp add: g select_topic_insert)
  have user: "fst (get_user_by_topic Works (PyInt t) ?s1) = Return (Some u)"
    by (simp add: get_user_by_topic_after [OF c(2,3) assms(4,5)] select_user_insert)
  have user': "fst (get_user_by_topic Works (PyInt t) ?s2) = Return (Some u)"
    by (simp only: get_user_by_topic_after [OF r2 t2 assms(4,5)])
      (simp add: select_user_insert)
  show ?thesis
    by (intro conjI c(1) topic user user')
qed

theorem create_then_lookup_witness:
  "ready fresh_store \<and> (0::int) < 42 \<and> (42::int) < 2 ^ 63 \<and>
   (0::int) < 1001 \<and> (1001::int) < 2 ^ 63 \<and>
   fst (get_user_topic Works (PyInt 42)
          (snd (create_user_topic Works (PyInt 42) (PyInt 1001) fresh_store))) = Return (Some 1001) \<and>
   fst (get_user_by_topic Works (PyInt 1001)
          (snd (create_user_topic Works (PyInt 42) (PyInt 1001) fresh_store))) = Return (Some 42)"
proof -
  have b: "(0::int) < 42" "(42::int) < 2 ^ 63" "(0::int) < 1001" "(1001::int) < 2 ^ 63"
    by simp_all
  show ?thesis
    using create_then_lookup [OF fresh_store_ready b] fresh_store_ready b by blast
qed

text \<open>
  C1 as stated fails for an identifier beyond the engine's range: with
  \<open>u = 2 ^ 63\<close> the driver refuses to bind \<open>u\<close>, \<open>create_user_topic\<close> raises
  \<open>DatabaseError\<close>, nothing is stored, and the lookups do not return the pair.
\<close>

theorem create_beyond_int64:
  "ready fresh_store \<and> (9223372036854775808::int) = 2 ^ 63 \<and>
   fst (create_user_topic Works (PyInt 9223372036854775808) (PyInt 1) fresh_store) =
     Raise (DatabaseError (FailureMessage OverflowError)) \<and>
   fst (get_user_topic Works (PyInt 9223372036854775808)
          (snd (create_user_topic Works (PyInt 9223372036854775808) (PyInt 1) fresh_store))) =
     Raise (DatabaseError (FailureMessage OverflowError)) \<and>
   fst (get_user_by_topic Works (PyInt 1)
          (snd (create_user_topic Works (PyInt 9223372036854775808) (PyInt 1) fresh_store))) =
     Return None"
  by (simp add: fresh_store_ready) (simp add: fresh_store_eq store_defs engine_defs)

text \<open>
  C2, as amended. For strictly positive \<open>u\<close>, \<open>t1\<close>, \<open>t2\<close> that fit the engine's signed
  64-bit \<open>INTEGER\<close>: on a ready store \<open>create_user_topic(u, t1)\<close> and then
  \<open>create_user_topic(u, t2)\<close> both return, the second replacing the row of the first
  rather than adding a row or failing: the table then holds exactly one row for \<open>u\<close>,
  \<open>get_user_topic(u)\<close> returns \<open>t2\<close>, and \<open>get_user_by_topic(t1)\<close> returns nothing when
  \<open>t1\<close> differs from \<open>t2\<close> and \<open>u\<close> when they are the same topic.
\<close>

theorem create_twice:
  assumes "ready s" and "0 < u" and "u < 2 ^ 63"
    and "0 < t1" and "t1 < 2 ^ 63" and "0 < t2" and "t2 < 2 ^ 63"
  shows "fst (create_user_topic Works (PyInt u) (PyInt t1) s) = Return () \<and>
         fst (create_user_topic Works (PyInt u) (PyInt t2)
                (snd (create_user_topic Works (PyInt u) (PyInt t1) s))) = Return () \<and>
         map_option (rowcount u)
           (table (snd (create_user_topic Works (PyInt u) (PyInt t2)
              (snd (create_user_topic Works (PyInt u) (PyInt t1) s))))) = Some 1 \<and>
         fst (get_user_topic Works (PyInt u)
           (snd (create_user_topic Works (PyInt u) (PyInt t2)
              (snd (create_user_topic Works (PyInt u) (PyInt t1) s))))) = Return (Some t2) \<and>
         fst (get_user_by_topic Works (PyInt t1)
           (snd (create_user_topic Works (PyInt u) (PyInt t2)
              (snd (create_user_topic Works (PyInt u) (PyInt t1) s))))) =
           Return (if t1 = t2 then Some u else None)"
proof -
  let ?s1 = "snd (create_user_topic Works (PyInt u) (PyInt t1) s)"
  let ?s2 = "snd (create_user_topic Works (PyInt u) (PyInt t2) ?s1)"
  from assms(1) obtain rows where rows: "table s = Some rows"
    by (auto elim: readyE)
  note c1 = create_user_topic_after [OF assms(1) rows assms(2-5)]
  note c2 = create_user_topic_after [OF c1(2,3) assms(2,3,6,7)]
  have "map_option (rowcount u) (table ?s2) = Some 1"
    by (simp add: c2(3) rowcount_insert)
  moreover have "fst (get_user_topic Works (PyInt u) ?s2) = Return (Some t2)"
    by (simp add: get_user_topic_after [OF c2(2,3) assms(2,3)] select_topic_insert)
  moreover have "fst (get_user_by_topic Works (PyInt t1) ?s2) =
                   Return (if t1 = t2 then Some u else None)"
    by (simp add: get_user_by_topic_after [OF c2(2,3) assms(4,5)] select_user_insert
        select_user_replaced)
  ultimately show ?thesis
    using c1(1) c2(1) by simp
qed

theorem create_twice_witness:
  "ready fresh_store \<and> (0::int) < 42 \<and> (42::int) < 2 ^ 63 \<and>
   (0::int) < 1001 \<and> (1001::int) < 2 ^ 63 \<and> (0::int) < 1002 \<and> (1002::int) < 2 ^ 63 \<and>
   fst (create_user_topic Works (PyInt 42) (PyInt 1002)
     (snd (create_user_topic Works (PyInt 42) (PyInt 1001) fresh_store))) = Return () \<and>
   fst (get_user_topic Works (PyInt 42)
     (snd (create_user_topic Works (PyInt 42) (PyInt 1002)
        (snd (create_user_topic Works (PyInt 42) (PyInt 1001) fresh_store))))) = Return (Some 1002) \<and>
   fst (get_user_by_topic Works (PyInt 1001)
     (snd (create_user_topic Works (PyInt 42) (PyInt 1002)
        (snd (create_user_topic Works (PyInt 42) (PyInt 1001) fresh_store))))) = Return None"
proof -
  have b: "(0::int) < 42" "(42::int) < 2 ^ 63" "(0::int) < 1001" "(1001::int) < 2 ^ 63"
    "(0::int) < 1002" "(1002::int) < 2 ^ 63"
    by simp_all
  have d: "(1001::int) \<noteq> 1002"
    by simp
  show ?thesis
    using create_twice [OF fresh_store_ready b] fresh_store_ready b d by presburger
qed

text \<open>
  C2 as stated fails in two ways. When the second topic is beyond the engine's range
  (\<open>t2 = 2 ^ 63\<close>) the second create fails and the first mapping stays. When the two
  topics coincide, \<open>get_user_by_topic\<close> of that topic returns the user, not nothing.
\<close>

theorem create_twice_refuted:
  "ready fresh_store \<and> (9223372036854775808::int) = 2 ^ 63 \<and>
   fst (create_user_topic Works (PyInt 1) (PyInt 9223372036854775808)
          (snd (create_user_topic Works (PyInt 1) (PyInt 5) fresh_store))) =
     Raise (DatabaseError (FailureMessage OverflowError)) \<and>
   fst (get_user_topic Works (PyInt 1)
          (snd (create_user_topic Works (PyInt 1) (PyInt 9223372036854775808)
             (snd (create_user_topic Works (PyInt 1) (PyInt 5) fresh_store))))) =
     Return (Some 5) \<and>
   fst (get_user_by_topic Works (PyInt 5)
          (snd (create_user_topic Works (PyInt 1) (PyInt 5)
             (snd (create_user_topic Works (PyInt 1) (PyInt 5) fresh_store))))) = Return (Some 1) \<and>
   Return (Some 1) \<noteq> (Return None :: int option outcome)"
  by (simp add: fresh_store_ready) (simp add: fresh_store_eq store_defs engine_defs)

text \<open>
  C3. On a ready store whose table is a bijection, any sequence of \<open>create_user_topic\<close>
  and \<open>delete_user_topic\<close> calls, with any arguments and under any behaviour of the
  driver, leaves the table a bijection: no \<open>user_id\<close> and no \<open>topic_id\<close> occurs in two
  rows. The store also stays ready, as long as no call met a failing close (which
  costs a slot of the semaphore).
\<close>

theorem bijection_preserved:
  "ready s \<Longrightarrow> table_bijective s \<Longrightarrow>
   table_bijective (run cs s) \<and>
   (list_all (\<lambda>c. fst c \<noteq> CloseFails) cs \<longrightarrow> ready (run cs s))"
  by (simp add: run_bijective run_ready)

theorem bijection_preserved_witness:
  "ready fresh_store \<and> table_bijective fresh_store \<and>
   list_all (\<lambda>c. fst c \<noteq> CloseFails)
     [(Works, Create (PyInt 1) (PyInt 7)), (Works, Create (PyInt 2) (PyInt 7)),
      (Works, Create (PyInt 3) (PyInt 8)), (Works, Delete (PyInt 3))] \<and>
   table (run [(Works, Create (PyInt 1) (PyInt 7)), (Works, Create (PyInt 2) (PyInt 7)),
               (Works, Create (PyInt 3) (PyInt 8)), (Works, Delete (PyInt 3))] fresh_store)
     = Some [(2, 7)] \<and>
   table_bijective
     (run [(Works, Create (PyInt 1) (PyInt 7)), (Works, Create (PyInt 2) (PyInt 7)),
           (Works, Create (PyInt 3) (PyInt 8)), (Works, Delete (PyInt 3))] fresh_store) \<and>
   ready
     (run [(Works, Create (PyInt 1) (PyInt 7)), (Works, Create (PyInt 2) (PyInt 7)),
           (Works, Create (PyInt 3) (PyInt 8)), (Works, Delete (PyInt 3))] fresh_store)"
proof -
  let ?cs = "[(Works, Create (PyInt 1) (PyInt 7)), (Works, Create (PyInt 2) (PyInt 7)),
              (Works, Create (PyInt 3) (PyInt 8)), (Works, Delete (PyInt 3))]"
  have l: "list_all (\<lambda>c. fst c \<noteq> CloseFails) ?cs"
    by simp
  have t: "table (run ?cs fresh_store) = Some [(2, 7)]"
    by (simp add: fresh_store_eq store_defs engine_defs)
  have b: "table_bijective (run ?cs fresh_store)" and r: "ready (run ?cs fresh_store)"
    using bijection_preserved [OF fresh_store_ready fresh_store_bijective, of ?cs] l
    by blast+
  show ?thesis
    by (intro conjI fresh_store_ready fresh_store_bijective l t b r)
qed

text \<open>
  C4, as amended. For strictly positive \<open>u\<close> that fits the engine's signed 64-bit
  \<open>INTEGER\<close>, on a ready store: \<open>delete_user_topic(u)\<close> returns true exactly when a row
  for \<open>u\<close> exists, so false for a user never mapped; after it \<open>get_user_topic(u)\<close>
  returns nothing; and every further \<open>delete_user_topic(u)\<close>, however many came before,
  returns false rather than raising.
\<close>

theorem delete_once:
  assumes "ready s" and "table s = Some rows" and "0 < u" and "u < 2 ^ 63"
  shows "fst (delete_user_topic Works (PyInt u) s) = Return (u \<in> fst ` set rows) \<and>
         fst (get_user_topic Works (PyInt u) (snd (delete_user_topic Works (PyInt u) s))) =
           Return None \<and>
         fst (delete_user_topic Works (PyInt u)
                (((\<lambda>s. snd (delete_user_topic Works (PyInt u) s)) ^^ Suc k) s)) = Return False"
proof -
  let ?s1 = "snd (delete_user_topic Works (PyInt u) s)"
  let ?sk = "((\<lambda>s. snd (delete_user_topic Works (PyInt u) s)) ^^ Suc k) s"
  have r1: "ready ?s1" and t1: "table ?s1 = Some (delete_user u rows)"
    using delete_user_topic_after(1,2) [OF assms] by simp_all
  have gone: "u \<notin> fst ` set (delete_user u rows)"
    by (simp add: fst_delete_user)
  have "fst (get_user_topic Works (PyInt u) ?s1) = Return None"
    using gone by (simp add: get_user_topic_after [OF r1 t1 assms(3,4)] select_topic_None)
  moreover have "fst (delete_user_topic Works (PyInt u) ?sk) = Return False"
  proof -
    note rep = delete_user_topic_repeated [OF assms, of k]
    have "fst (delete_user_topic Works (PyInt u) ?sk) =
            Return (u \<in> fst ` set (delete_user u rows))"
      by (rule delete_user_topic_after(3)
            [OF rep [THEN conjunct1] rep [THEN conjunct2] assms(3,4)])
    with gone show ?thesis by simp
  qed
  ultimately show ?thesis
    using delete_user_topic_after(3) [OF assms] by simp
qed

theorem delete_once_witness:
  "ready (snd (create_user_topic Works (PyInt 42) (PyInt 1001) fresh_store)) \<and>
   table (snd (create_user_topic Works (PyInt 42) (PyInt 1001) fresh_store)) = Some [(42, 1001)] \<and>
   (0::int) < 42 \<and> (42::int) < 2 ^ 63 \<and>
   fst (delete_user_topic Works (PyInt 42)
          (snd (create_user_topic Works (PyInt 42) (PyInt 1001) fresh_store))) = Return True \<and>
   fst (delete_user_topic Works (PyInt 42)
          (snd (delete_user_topic Works (PyInt 42)
             (snd (create_user_topic Works (PyInt 42) (PyInt 1001) fresh_store))))) = Return False"
proof -
  let ?s = "snd (create_user_topic Works (PyInt 42) (PyInt 1001) fresh_store)"
  have r: "ready ?s" and t: "table ?s = Some [(42, 1001)]"
    by (simp_all add: fresh_store_eq store_defs engine_defs ready_def)
  have b: "(0::int) < 42" "(42::int) < 2 ^ 63"
    by simp_all
  show ?thesis
    using delete_once [OF r t b, of 0] r t b by simp
qed

text \<open>
  C4 as stated fails for an identifier beyond the engine's range: for \<open>u = 2 ^ 63\<close>,
  never mapped, \<open>delete_user_topic(u)\<close> raises \<open>DatabaseError\<close> instead of returning
  false.
\<close>

theorem delete_beyond_int64:
  "ready fresh_store \<and> table fresh_store = Some [] \<and> (9223372036854775808::int) = 2 ^ 63 \<and>
   fst (delete_user_topic Works (PyInt 9223372036854775808) fresh_store) =
     Raise (DatabaseError (FailureMessage OverflowError)) \<and>
   Raise (DatabaseError (FailureMessage OverflowError)) \<noteq> (Return False :: bool outcome)"
  by (simp add: fresh_store_ready) (simp add: fresh_store_eq store_defs engine_defs)

text \<open>
  C10, as amended. With identifiers that fit the engine's signed 64-bit \<open>INTEGER\<close>: when
  the topic \<open>t\<close> belongs to user \<open>u1\<close> and \<open>create_user_topic(u2, t)\<close> is called for
  another user \<open>u2\<close>, the call returns without an error; afterwards
  \<open>get_user_topic(u1)\<close> returns nothing and \<open>get_user_by_topic(t)\<close> returns \<open>u2\<close>.
\<close>

theorem last_write_wins:
  assumes "ready s" and "table s = Some rows" and "bijective rows"
    and "(u1, t) \<in> set rows" and "u1 \<noteq> u2"
    and "0 < u1" and "u1 < 2 ^ 63" and "0 < u2" and "u2 < 2 ^ 63" and "0 < t" and "t < 2 ^ 63"
  shows "fst (create_user_topic Works (PyInt u2) (PyInt t) s) = Return () \<and>
         fst (get_user_topic Works (PyInt u1)
                (snd (create_user_topic Works (PyInt u2) (PyInt t) s))) = Return None \<and>
         fst (get_user_by_topic Works (PyInt t)
                (snd (create_user_topic Works (PyInt u2) (PyInt t) s))) = Return (Some u2)"
proof -
  let ?s1 = "snd (create_user_topic Works (PyInt u2) (PyInt t) s)"
  note c = create_user_topic_after [OF assms(1,2,8,9,10,11)]
  have only: "t' = t" if "(u1, t') \<in> set rows" for t'
    using that assms(3,4) by (auto simp: bijective_def dest: eq_key_imp_eq_value)
  have gone: "u1 \<notin> fst ` set (insert_or_replace u2 t rows)"
    using only assms(5) by (auto simp: insert_or_replace_def)
  have "fst (get_user_topic Works (PyInt u1) ?s1) = Return None"
    using gone by (simp add: get_user_topic_after [OF c(2,3) assms(6,7)] select_topic_None)
  moreover have "fst (get_user_by_topic Works (PyInt t) ?s1) = Return (Some u2)"
    by (simp add: get_user_by_topic_after [OF c(2,3) assms(10,11)] select_user_insert)
  ultimately show ?thesis
    using c(1) by simp
qed

theorem last_write_wins_witness:
  "ready (snd (create_user_topic Works (PyInt 1) (PyInt 7) fresh_store)) \<and>
   table (snd (create_user_topic Works (PyInt 1) (PyInt 7) fresh_store)) = Some [(1, 7)] \<and>
   bijective [(1, 7)] \<and> (1, 7) \<in> set [(1::int, 7::int)] \<and> (1::int) \<noteq> 2 \<and>
   (0::int) < 1 \<and> (1::int) < 2 ^ 63 \<and> (0::int) < 2 \<and> (2::int) < 2 ^ 63 \<and>
   (0::int) < 7 \<and> (7::int) < 2 ^ 63 \<and>
   fst (get_user_topic Works (PyInt 1)
          (snd (create_user_topic Works (PyInt 2) (PyInt 7)
             (snd (create_user_topic Works (PyInt 1) (PyInt 7) fresh_store))))) = Return None \<and>
   fst (get_user_by_topic Works (PyInt 7)
          (snd (create_user_topic Works (PyInt 2) (PyInt 7)
             (snd (create_user_topic Works (PyInt 1) (PyInt 7) fresh_store))))) = Return (Some 2)"
proof -
  let ?s = "snd (create_user_topic Works (PyInt 1) (PyInt 7) fresh_store)"
  have r: "ready ?s" and t: "table ?s = Some [(1, 7)]"
    by (simp_all add: fresh_store_eq store_defs engine_defs ready_def)
  have b: "bijective [(1::int, 7::int)]"
    by (simp add: bijective_def)
  have m: "(1::int, 7::int) \<in> set [(1, 7)]" and d: "(1::int) \<noteq> 2"
    by simp_all
  have n: "(0::int) < 1" "(1::int) < 2 ^ 63" "(0::int) < 2" "(2::int) < 2 ^ 63"
    "(0::int) < 7" "(7::int) < 2 ^ 63"
    by simp_all
  show ?thesis
    using last_write_wins [OF r t b m d n] r t b m d n by blast
qed

text \<open>
  C10 as stated fails for an identifier beyond the engine's range: topic 7 belongs to
  user 1, and \<open>create_user_topic(2 ^ 63, 7)\<close> raises \<open>DatabaseError\<close>; the topic stays
  with user 1.
\<close>

theorem replace_beyond_int64:
  "ready (snd (create_user_topic Works (PyInt 1) (PyInt 7) fresh_store)) \<and>
   table (snd (create_user_topic Works (PyInt 1) (PyInt 7) fresh_store)) = Some [(1, 7)] \<and>
   (9223372036854775808::int) = 2 ^ 63 \<and>
   fst (create_user_topic Works (PyInt 9223372036854775808) (PyInt 7)
          (snd (create_user_topic Works (PyInt 1) (PyInt 7) fresh_store))) =
     Raise (DatabaseError (FailureMessage OverflowError)) \<and>
   fst (get_user_topic Works (PyInt 1)
          (snd (create_user_topic Works (PyInt 9223372036854775808) (PyInt 7)
             (snd (create_user_topic Works (PyInt 1) (PyInt 7) fresh_store))))) =
     Return (Some 7) \<and>
   fst (get_user_by_topic Works (PyInt 7)
          (snd (create_user_topic Works (PyInt 9223372036854775808) (PyInt 7)
             (snd (create_user_topic Works (PyInt 1) (PyInt 7) fresh_store))))) =
     Return (Some 1)"
  by (simp add: fresh_store_eq store_defs engine_defs ready_def)

text \<open>
  C8. An identifier that is not an instance of \<open>int\<close> or is not strictly positive
  makes each of the four data operations raise \<open>ValueError\<close>, a class distinct from
  \<open>DatabaseError\<close>, whatever the driver would do; the store is left exactly as it was:
  no slot taken, no connection opened, no statement run, the table unchanged. For
  \<open>create_user_topic\<close> this holds for either argument, the user being checked first.
\<close>

theorem invalid_identifier_rejected:
  assumes "invalid_id v"
  shows "get_user_topic d v s = (Raise (ValueError UserId v), s) \<and>
         get_user_by_topic d v s = (Raise (ValueError TopicId v), s) \<and>
         delete_user_topic d v s = (Raise (ValueError UserId v), s) \<and>
         create_user_topic d v w s = (Raise (ValueError UserId v), s) \<and>
         create_user_topic d w v s =
           (Raise (if invalid_id w then ValueError UserId w else ValueError TopicId v), s) \<and>
         class_of (ValueError x v) = ValueErrorClass \<and>
         class_of (ValueError x v) \<noteq> class_of (DatabaseError m)"
  using assms
  by (simp add: get_user_topic_def get_user_by_topic_def delete_user_topic_def
      create_user_topic_def)

theorem invalid_identifier_rejected_witness:
  "invalid_id (PyInt 0) \<and> invalid_id (PyStr ''42'') \<and>
   get_user_topic Works (PyInt 0) fresh_store = (Raise (ValueError UserId (PyInt 0)), fresh_store) \<and>
   create_user_topic Works (PyInt 42) (PyStr ''42'') fresh_store =
     (Raise (ValueError TopicId (PyStr ''42'')), fresh_store)"
proof -
  have a: "invalid_id (PyInt 0)" and b: "invalid_id (PyStr ''42'')"
    and c: "\<not> invalid_id (PyInt 42)"
    by (simp_all add: invalid_id_def)
  show ?thesis
    using invalid_identifier_rejected [OF a, of Works fresh_store]
      invalid_identifier_rejected [OF b, of Works fresh_store "PyInt 42"] a b c
    by simp
qed

text \<open>
  C7, as amended. On a ready store, when opening the connection times out, each of the
  four data operations raises \<open>DatabaseError\<close> with the fixed timeout message; when the
  open or a statement fails, each raises \<open>DatabaseError\<close> with the message that embeds
  the cause. The two are the same class of exception and differ in the message only.
\<close>

theorem timeout_is_database_error:
  assumes "ready s" and "\<not> invalid_id v" and "\<not> invalid_id w"
  shows "fst (get_user_topic ConnectTimesOut v s) = Raise (DatabaseError TimeoutMessage) \<and>
         fst (create_user_topic ConnectTimesOut v w s) = Raise (DatabaseError TimeoutMessage) \<and>
         fst (get_user_by_topic ConnectTimesOut v s) = Raise (DatabaseError TimeoutMessage) \<and>
         fst (delete_user_topic ConnectTimesOut v s) = Raise (DatabaseError TimeoutMessage) \<and>
         (d = ConnectFails \<or> d = StatementFails \<longrightarrow>
            fst (get_user_topic d v s) = Raise (DatabaseError (FailureMessage DriverError)) \<and>
            fst (create_user_topic d v w s) = Raise (DatabaseError (FailureMessage DriverError)) \<and>
            fst (get_user_by_topic d v s) = Raise (DatabaseError (FailureMessage DriverError)) \<and>
            fst (delete_user_topic d v s) = Raise (DatabaseError (FailureMessage DriverError))) \<and>
         class_of (DatabaseError TimeoutMessage) = class_of (DatabaseError (FailureMessage e)) \<and>
         DatabaseError TimeoutMessage \<noteq> DatabaseError (FailureMessage e)"
proof -
  from assms(1) obtain n rows where
    s: "semaphore s = Some n" "0 < n" "table s = Some rows"
    by (auto elim: readyE)
  show ?thesis
    using s assms(2,3) by (auto simp: store_defs)
qed

theorem timeout_is_database_error_witness:
  "ready fresh_store \<and> \<not> invalid_id (PyInt 42) \<and> \<not> invalid_id (PyInt 1001) \<and>
   get_user_topic ConnectTimesOut (PyInt 42) fresh_store =
     (Raise (DatabaseError TimeoutMessage),
      fresh_store\<lparr>open_conns := 1,
                  trace := trace fresh_store @ [Acquire, Release, Open],
                  journal := journal fresh_store @ [LogTimeout GetUserTopic 42]\<rparr>) \<and>
   fst (create_user_topic StatementFails (PyInt 42) (PyInt 1001) fresh_store) =
     Raise (DatabaseError (FailureMessage DriverError))"
proof -
  have a: "\<not> invalid_id (PyInt 42)" and b: "\<not> invalid_id (PyInt 1001)"
    by (simp_all add: invalid_id_def)
  have c: "get_user_topic ConnectTimesOut (PyInt 42) fresh_store =
     (Raise (DatabaseError TimeoutMessage),
      fresh_store\<lparr>open_conns := 1,
                  trace := trace fresh_store @ [Acquire, Release, Open],
                  journal := journal fresh_store @ [LogTimeout GetUserTopic 42]\<rparr>)"
    by (simp add: fresh_store_eq store_defs)
  show ?thesis
    using timeout_is_database_error [OF fresh_store_ready a b, of StatementFails]
      fresh_store_ready a b c
    by simp
qed

text \<open>
  C7 as stated fails: the exception after a timeout and the exception after a failed
  open are both \<open>DatabaseError\<close>, so a caller has no error class to tell them apart by;
  and \<open>initialize\<close>, which has no handler, lets the timeout error of \<open>wait_for\<close> through
  as it is.
\<close>

theorem timeout_kind_not_distinct:
  "ready fresh_store \<and>
   fst (get_user_topic ConnectTimesOut (PyInt 42) fresh_store) =
     Raise (DatabaseError TimeoutMessage) \<and>
   fst (get_user_topic ConnectFails (PyInt 42) fresh_store) =
     Raise (DatabaseError (FailureMessage DriverError)) \<and>
   class_of (DatabaseError TimeoutMessage) = class_of (DatabaseError (FailureMessage DriverError)) \<and>
   fst (initialize ConnectTimesOut (new_manager 5 None)) = Raise AsyncioTimeoutError \<and>
   class_of AsyncioTimeoutError \<noteq> class_of (DatabaseError TimeoutMessage)"
  by (simp add: fresh_store_ready)
    (simp add: fresh_store_eq store_defs initialize_def new_manager_def)

text \<open>
  C6, as amended. With valid identifiers, each of the four data operations on a store
  whose semaphore was never created raises \<open>DatabaseError\<close> carrying the not-initialised
  message and does nothing else but log it: no slot, no connection, no statement.
  \<open>close\<close> does not bring a store back to that state: it leaves the semaphore and the
  table as they are, so every data operation has the same outcome after \<open>close\<close> as
  before it.
\<close>

theorem uninitialized_rejected:
  assumes "\<not> invalid_id v" and "\<not> invalid_id w"
  shows "(semaphore s = None \<longrightarrow>
           get_user_topic d v s =
             (Raise (DatabaseError (FailureMessage (DatabaseError NotInitialized))),
              s\<lparr>journal := journal s @
                   [LogFailure GetUserTopic (as_int v) (DatabaseError NotInitialized)]\<rparr>) \<and>
           create_user_topic d v w s =
             (Raise (DatabaseError (FailureMessage (DatabaseError NotInitialized))),
              s\<lparr>journal := journal s @
                   [LogFailure CreateUserTopic (as_int v) (DatabaseError NotInitialized)]\<rparr>) \<and>
           get_user_by_topic d v s =
             (Raise (DatabaseError (FailureMessage (DatabaseError NotInitialized))),
              s\<lparr>journal := journal s @
                   [LogFailure GetUserByTopic (as_int v) (DatabaseError NotInitialized)]\<rparr>) \<and>
           delete_user_topic d v s =
             (Raise (DatabaseError (FailureMessage (DatabaseError NotInitialized))),
              s\<lparr>journal := journal s @
                   [LogFailure DeleteUserTopic (as_int v) (DatabaseError NotInitialized)]\<rparr>)) \<and>
         semaphore (snd (close s)) = semaphore s \<and>
         table (snd (close s)) = table s \<and>
         fst (get_user_topic d v (snd (close s))) = fst (get_user_topic d v s) \<and>
         fst (create_user_topic d v w (snd (close s))) = fst (create_user_topic d v w s) \<and>
         fst (get_user_by_topic d v (snd (close s))) = fst (get_user_by_topic d v s) \<and>
         fst (delete_user_topic d v (snd (close s))) = fst (delete_user_topic d v s)"
proof -
  have closed: "semaphore (snd (close s)) = semaphore s" "table (snd (close s)) = table s"
    by (simp_all add: close_def)
  have same: "fst (get_user_topic d v (snd (close s))) = fst (get_user_topic d v s)"
    "fst (create_user_topic d v w (snd (close s))) = fst (create_user_topic d v w s)"
    "fst (get_user_by_topic d v (snd (close s))) = fst (get_user_by_topic d v s)"
    "fst (delete_user_topic d v (snd (close s))) = fst (delete_user_topic d v s)"
    using assms
    by (cases d; cases "semaphore s"; cases "table s"; simp add: close_def store_defs)+
  show ?thesis
    using assms closed same by (simp add: store_defs)
qed

theorem uninitialized_rejected_witness:
  "\<not> invalid_id (PyInt 42) \<and> \<not> invalid_id (PyInt 1001) \<and>
   semaphore (new_manager 5 None) = None \<and>
   fst (get_user_topic Works (PyInt 42) (new_manager 5 None)) =
     Raise (DatabaseError (FailureMessage (DatabaseError NotInitialized))) \<and>
   trace (snd (get_user_topic Works (PyInt 42) (new_manager 5 None))) = []"
proof -
  have a: "\<not> invalid_id (PyInt 42)" and b: "\<not> invalid_id (PyInt 1001)"
    by (simp_all add: invalid_id_def)
  have c: "semaphore (new_manager 5 None) = None" "trace (new_manager 5 None) = []"
    by (simp_all add: new_manager_def)
  show ?thesis
    using uninitialized_rejected [OF a b, of "new_manager 5 None" Works] a b c
    by simp
qed

text \<open>
  C6 as stated fails for a closed store: after \<open>close\<close> has returned and the flag is
  reset, \<open>get_user_topic\<close> still runs and returns the stored topic.
\<close>

theorem closed_store_still_serves:
  "fst (close (snd (create_user_topic Works (PyInt 42) (PyInt 1001) fresh_store))) = Return () \<and>
   \<not> initialized (snd (close (snd (create_user_topic Works (PyInt 42) (PyInt 1001) fresh_store)))) \<and>
   fst (get_user_topic Works (PyInt 42)
          (snd (close (snd (create_user_topic Works (PyInt 42) (PyInt 1001) fresh_store))))) =
     Return (Some 1001)"
  by (simp add: fresh_store_eq store_defs engine_defs close_def)

section \<open>Properties of the gate and of the lifecycle\<close>

text \<open>
  C5, evaluated on the code, with the five slots of \<open>main\<close>. An operation whose
  connection fails to close keeps its slot: the counter goes from 5 to 4 and the
  connection stays open; after five such operations the counter is 0 and the next
  operation, with a driver that works, never gets a slot. An operation whose open times
  out gives its slot back but leaves behind the connection the driver went on to open:
  after six of them six connections are open, one more than the gate allows.
\<close>

theorem gate_leaks:
  "max_connections fresh_store = 5 \<and> semaphore fresh_store = Some 5 \<and>
   open_conns fresh_store = 0 \<and>
   fst (get_user_topic CloseFails (PyInt 42) fresh_store) =
     Raise (DatabaseError (FailureMessage DriverError)) \<and>
   semaphore (snd (get_user_topic CloseFails (PyInt 42) fresh_store)) = Some 4 \<and>
   open_conns (snd (get_user_topic CloseFails (PyInt 42) fresh_store)) = 1 \<and>
   semaphore (((\<lambda>s. snd (get_user_topic CloseFails (PyInt 42) s)) ^^ 5) fresh_store) = Some 0 \<and>
   fst (get_user_topic Works (PyInt 42)
          (((\<lambda>s. snd (get_user_topic CloseFails (PyInt 42) s)) ^^ 5) fresh_store)) = Hang \<and>
   fst (get_user_topic ConnectTimesOut (PyInt 42) fresh_store) =
     Raise (DatabaseError TimeoutMessage) \<and>
   semaphore (snd (get_user_topic ConnectTimesOut (PyInt 42) fresh_store)) = Some 5 \<and>
   open_conns (snd (get_user_topic ConnectTimesOut (PyInt 42) fresh_store)) = 1 \<and>
   open_conns (((\<lambda>s. snd (get_user_topic ConnectTimesOut (PyInt 42) s)) ^^ 6) fresh_store) = 6"
  by (simp add: fresh_store_eq store_defs engine_defs eval_nat_numeral)

text \<open>
  C9, evaluated on the code. When the polling task ends with an exception \<open>e\<close> and no
  shutdown was requested, \<open>run_bot\<close> returns normally: \<open>main\<close> returns, the exit status
  is zero, the critical-error branch is never entered, and the timeline ends with the
  session and the store closed on the ordinary path.
\<close>

theorem polling_failure_is_swallowed:
  "fst (main Works \<lparr>polling = Failed e, shutdown = False\<rparr> (new_process 5 None)) = Return () \<and>
   exit_status (fst (main Works \<lparr>polling = Failed e, shutdown = False\<rparr> (new_process 5 None)))
     = Some 0 \<and>
   timeline (snd (main Works \<lparr>polling = Failed e, shutdown = False\<rparr> (new_process 5 None))) =
     [LogStarting, LogBotReady, Cancelled ShutdownTask, SessionClosed, LogBotFinished,
      StoreClosed, LogStopped] \<and>
   LogCritical e \<notin>
     set (timeline (snd (main Works \<lparr>polling = Failed e, shutdown = False\<rparr>
                           (new_process 5 None))))"
proof -
  have "initialize Works (new_manager 5 None) = (Return (), fresh_store)"
    by (simp add: fresh_store_def initialize_def new_manager_def get_connection_def
        schema_body_def release_def close_conn_def Let_def)
  then have "main Works \<lparr>polling = Failed e, shutdown = False\<rparr> (new_process 5 None) =
      (Return (),
       \<lparr>db = snd (close fresh_store), session_open = False,
        timeline = [LogStarting, LogBotReady, Cancelled ShutdownTask, SessionClosed,
                    LogBotFinished, StoreClosed, LogStopped]\<rparr>)"
    by (simp add: main_def new_process_def run_bot_def pending_def close_store_def
        close_def fresh_store_eq Let_def)
  then show ?thesis by simp
qed

end
